theory Spec2Isabelle
  imports Main
begin

section \<open>Strings\<close>

text \<open>
  JavaScript strings are modelled as \<^typ>\<open>string\<close>: a list of characters, one per code
  unit, for code units up to U+00FF (so the line terminators are line feed and carriage
  return).  \<open>String.prototype.replace\<close> with a string pattern
  replaces the first occurrence of the pattern as a substring; the replacement texts used by
  the program contain no \<open>$\<close>, and are inserted literally.
\<close>

fun replaceStr :: "string \<Rightarrow> string \<Rightarrow> string \<Rightarrow> string" where
  "replaceStr pat rep [] = (if pat = [] then rep else [])"
| "replaceStr pat rep (c # cs) =
     (if take (length pat) (c # cs) = pat then rep @ drop (length pat) (c # cs)
      else c # replaceStr pat rep cs)"

section \<open>Regular expressions\<close>

text \<open>
  The patterns of the program are ECMAScript regular expressions used without flags.  The
  abstract syntax below covers the constructs that occur in them: characters, the dot,
  character classes, sequence, alternation, the quantifiers \<open>*\<close>, \<open>+\<close>, \<open>?\<close> (greedy or
  lazy), capturing groups (numbered from 0, optionally named), lookahead and the two
  anchors.
\<close>

datatype qkind = QStar | QPlus | QOpt

datatype regex =
    Empty
  | Chr char
  | Dot
  | Class bool "(char \<times> char) list"
  | Seq regex regex
  | Alt regex regex
  | Quant qkind bool regex
  | Group nat "string option" regex
  | Look bool regex
  | Bol
  | Eol

type_synonym caps = "string option list"

definition isLineTerminator :: "char \<Rightarrow> bool" where
  "isLineTerminator x = (x = CHR 0x0A \<or> x = CHR 0x0D)"

definition inClass :: "(char \<times> char) list \<Rightarrow> char \<Rightarrow> bool" where
  "inClass rs x =
     list_ex (\<lambda>(lo, hi). (of_char lo :: nat) \<le> of_char x \<and> (of_char x :: nat) \<le> of_char hi) rs"

fun groupsOf :: "regex \<Rightarrow> nat list" where
  "groupsOf (Seq r1 r2) = groupsOf r1 @ groupsOf r2"
| "groupsOf (Alt r1 r2) = groupsOf r1 @ groupsOf r2"
| "groupsOf (Quant k g r) = groupsOf r"
| "groupsOf (Group i nm r) = i # groupsOf r"
| "groupsOf (Look b r) = groupsOf r"
| "groupsOf r = []"

fun namedGroups :: "regex \<Rightarrow> (string \<times> nat) list" where
  "namedGroups (Seq r1 r2) = namedGroups r1 @ namedGroups r2"
| "namedGroups (Alt r1 r2) = namedGroups r1 @ namedGroups r2"
| "namedGroups (Quant k g r) = namedGroups r"
| "namedGroups (Group i nm r) =
     (case nm of None \<Rightarrow> namedGroups r | Some name \<Rightarrow> (name, i) # namedGroups r)"
| "namedGroups (Look b r) = namedGroups r"
| "namedGroups r = []"

fun clearCaps :: "nat list \<Rightarrow> caps \<Rightarrow> caps" where
  "clearCaps [] c = c"
| "clearCaps (i # is) c = clearCaps is (c[i := None])"

fun rsize :: "regex \<Rightarrow> nat" where
  "rsize (Seq r1 r2) = Suc (rsize r1 + rsize r2)"
| "rsize (Alt r1 r2) = Suc (rsize r1 + rsize r2)"
| "rsize (Quant QPlus g r) = Suc (Suc (rsize r))"
| "rsize (Quant k g r) = Suc (rsize r)"
| "rsize (Group i nm r) = Suc (rsize r)"
| "rsize (Look b r) = Suc (rsize r)"
| "rsize r = 0"

text \<open>
  The matcher is the backtracking matcher of the language definition, written as a list of
  successes: \<open>matchR n r s c\<close> lists, in the order in which backtracking would try them,
  the ways in which \<open>r\<close> can match a prefix of the remaining input \<open>s\<close>, each as the input
  left over and the captures made; \<open>n\<close> is the length of the whole input, by which \<open>^\<close>
  recognises the start.  The first element is the match the engine reports.  A quantifier
  clears the captures of the groups it contains before every iteration, and rejects an
  iteration that consumes nothing once its minimum is reached; a lookahead keeps only the
  first way its body matches, and consumes nothing.
\<close>

function matchR :: "nat \<Rightarrow> regex \<Rightarrow> string \<Rightarrow> caps \<Rightarrow> (string \<times> caps) list" where
  "matchR n Empty s c = [(s, c)]"
| "matchR n (Chr a) s c =
     (case s of [] \<Rightarrow> [] | x # xs \<Rightarrow> if x = a then [(xs, c)] else [])"
| "matchR n Dot s c =
     (case s of [] \<Rightarrow> [] | x # xs \<Rightarrow> if isLineTerminator x then [] else [(xs, c)])"
| "matchR n (Class neg rs) s c =
     (case s of [] \<Rightarrow> [] | x # xs \<Rightarrow> if inClass rs x \<noteq> neg then [(xs, c)] else [])"
| "matchR n (Seq r1 r2) s c =
     concat (map (\<lambda>(s', c'). matchR n r2 s' c') (matchR n r1 s c))"
| "matchR n (Alt r1 r2) s c = matchR n r1 s c @ matchR n r2 s c"
| "matchR n (Group i nm r) s c =
     map (\<lambda>(s', c'). (s', c'[i := Some (take (length s - length s') s)])) (matchR n r s c)"
| "matchR n (Look b r) s c =
     (case matchR n r s c of
        [] \<Rightarrow> if b then [] else [(s, c)]
      | (s', c') # _ \<Rightarrow> if b then [(s, c')] else [])"
| "matchR n Bol s c = (if length s = n then [(s, c)] else [])"
| "matchR n Eol s c = (if s = [] then [(s, c)] else [])"
| "matchR n (Quant QStar g r) s c =
     (let more = concat (map (\<lambda>(s', c').
                    if length s' < length s then matchR n (Quant QStar g r) s' c' else [])
                  (matchR n r s (clearCaps (groupsOf r) c)))
      in if g then more @ [(s, c)] else (s, c) # more)"
| "matchR n (Quant QPlus g r) s c =
     concat (map (\<lambda>(s', c'). matchR n (Quant QStar g r) s' c')
       (matchR n r s (clearCaps (groupsOf r) c)))"
| "matchR n (Quant QOpt g r) s c =
     (let more = filter (\<lambda>(s', c'). length s' < length s)
                   (matchR n r s (clearCaps (groupsOf r) c))
      in if g then more @ [(s, c)] else (s, c) # more)"
  by pat_completeness auto
termination
  by (relation "measures [\<lambda>(n, r, s, c). rsize r, \<lambda>(n, r, s, c). length s]") auto

text \<open>
  A regular expression object without flags: its pattern and the number of its capturing
  groups, which are numbered below that number.
\<close>

record regexp =
  pattern :: regex
  ngroups :: nat

text \<open>
  One attempt at one position: the length of the text matched and the captures, from the
  first way the pattern matches there.
\<close>

definition matchAt :: "regexp \<Rightarrow> nat \<Rightarrow> string \<Rightarrow> (nat \<times> caps) option" where
  "matchAt rx n s =
     (case matchR n (pattern rx) s (replicate (ngroups rx) None) of
        [] \<Rightarrow> None
      | (s', c') # _ \<Rightarrow> Some (length s - length s', c'))"

text \<open>
  \<open>exec\<close> on a regular expression without the global or sticky flag tries the start
  positions from the left; the result gives the text before the match, the matched text,
  the text after it, and the captures.
\<close>

fun execFrom :: "regexp \<Rightarrow> nat \<Rightarrow> string \<Rightarrow> string
    \<Rightarrow> (string \<times> string \<times> string \<times> caps) option" where
  "execFrom rx n pre s =
     (case matchAt rx n s of
        Some (k, c') \<Rightarrow> Some (pre, take k s, drop k s, c')
      | None \<Rightarrow> (case s of [] \<Rightarrow> None | x # xs \<Rightarrow> execFrom rx n (pre @ [x]) xs))"

definition exec :: "regexp \<Rightarrow> string \<Rightarrow> (string \<times> string \<times> string \<times> caps) option" where
  "exec rx s = execFrom rx (length s) [] s"

text \<open>\<open>String.prototype.replace\<close> with such a regular expression and a literal replacement.\<close>

definition replaceRe :: "regexp \<Rightarrow> string \<Rightarrow> string \<Rightarrow> string" where
  "replaceRe rx rep s =
     (case exec rx s of None \<Rightarrow> s | Some (pre, _, post, _) \<Rightarrow> pre @ rep @ post)"

section \<open>Errors\<close>

text \<open>
  The exceptions the program can raise.  \<open>Unmodelled\<close> is not a JavaScript exception: it
  marks pattern text outside the part of the pattern grammar treated in this development
  (escapes other than those of punctuation, bounded quantifiers, lookbehind, modifiers,
  group names that repeat or are not ASCII), about which the model makes no statement.
\<close>

datatype error = NonSpecFileError | SyntaxError | TypeError | Unmodelled

section \<open>Compiling pattern text\<close>

text \<open>
  \<open>new RegExp(text)\<close> parses the pattern text.  The parser reads one character at a time
  and keeps a stack of the groups that are open; each frame holds the kind of the group,
  the alternatives finished so far and the terms of the current alternative, both latest
  first.
\<close>

datatype gkind = GTop | GCap nat "string option" | GNon | GLook bool

type_synonym frame = "gkind \<times> regex list \<times> regex list"

datatype qflag = QNone | QAtom | QQuant

datatype cpend = PNone | PChar char | PDash char

datatype pmode =
    MNormal
  | MParen
  | MParenQ
  | MName string
  | MEsc
  | MClass0
  | MClass bool "(char \<times> char) list" cpend
  | MClassEsc bool "(char \<times> char) list" cpend
  | MBrace nat string

record pstate =
  stack :: "frame list"
  ngr :: nat
  names :: "string list"
  mode :: pmode
  qf :: qflag

fun mkSeq :: "regex list \<Rightarrow> regex" where
  "mkSeq [] = Empty"
| "mkSeq [t] = t"
| "mkSeq (t # ts) = Seq t (mkSeq ts)"

fun mkAlt :: "regex list \<Rightarrow> regex" where
  "mkAlt [] = Empty"
| "mkAlt [a] = a"
| "mkAlt (a # as) = Alt a (mkAlt as)"

definition closeFrame :: "frame \<Rightarrow> regex" where
  "closeFrame f =
     (case f of (k, alts, cur) \<Rightarrow>
        let body = mkAlt (rev (mkSeq (rev cur) # alts))
        in case k of
             GTop \<Rightarrow> body
           | GCap i nm \<Rightarrow> Group i nm body
           | GNon \<Rightarrow> body
           | GLook b \<Rightarrow> Look b body)"

definition pushTerm :: "qflag \<Rightarrow> regex \<Rightarrow> pstate \<Rightarrow> pstate" where
  "pushTerm q a st =
     (case stack st of
        [] \<Rightarrow> st
      | (k, alts, cur) # fs \<Rightarrow> st\<lparr>stack := (k, alts, a # cur) # fs, qf := q, mode := MNormal\<rparr>)"

definition openFrame :: "gkind \<Rightarrow> pstate \<Rightarrow> pstate" where
  "openFrame k st = st\<lparr>stack := (k, [], []) # stack st, qf := QNone, mode := MNormal\<rparr>"

definition quantKind :: "char \<Rightarrow> qkind" where
  "quantKind ch = (if ch = CHR ''*'' then QStar else if ch = CHR ''+'' then QPlus else QOpt)"

definition pquant :: "pstate \<Rightarrow> char \<Rightarrow> error + pstate" where
  "pquant st ch =
     (case stack st of
        (k, alts, a # cur) # fs \<Rightarrow>
          (case qf st of
             QAtom \<Rightarrow>
               Inr (st\<lparr>stack := (k, alts, Quant (quantKind ch) True a # cur) # fs, qf := QQuant\<rparr>)
           | QQuant \<Rightarrow>
               (case a of
                  Quant q g r \<Rightarrow>
                    if ch = CHR ''?'' then
                      Inr (st\<lparr>stack := (k, alts, Quant q False r # cur) # fs, qf := QNone\<rparr>)
                    else Inl SyntaxError
                | _ \<Rightarrow> Inl SyntaxError)
           | QNone \<Rightarrow> Inl SyntaxError)
      | _ \<Rightarrow> Inl SyntaxError)"

definition pnormal :: "pstate \<Rightarrow> char \<Rightarrow> error + pstate" where
  "pnormal st ch =
     (if ch = CHR ''('' then Inr (st\<lparr>mode := MParen\<rparr>)
      else if ch = CHR '')'' then
        (case stack st of
           f # g # fs \<Rightarrow> Inr (pushTerm QAtom (closeFrame f) (st\<lparr>stack := g # fs\<rparr>))
         | _ \<Rightarrow> Inl SyntaxError)
      else if ch = CHR ''|'' then
        (case stack st of
           (k, alts, cur) # fs \<Rightarrow>
             Inr (st\<lparr>stack := (k, mkSeq (rev cur) # alts, []) # fs, qf := QNone\<rparr>)
         | [] \<Rightarrow> Inl SyntaxError)
      else if ch = CHR ''*'' \<or> ch = CHR ''+'' \<or> ch = CHR ''?'' then pquant st ch
      else if ch = CHR ''.'' then Inr (pushTerm QAtom Dot st)
      else if ch = CHR ''^'' then Inr (pushTerm QNone Bol st)
      else if ch = CHR ''$'' then Inr (pushTerm QNone Eol st)
      else if ch = CHR ''['' then Inr (st\<lparr>mode := MClass0\<rparr>)
      else if ch = CHR 0x5C then Inr (st\<lparr>mode := MEsc\<rparr>)
      else if ch = CHR ''{'' then Inr (st\<lparr>mode := MBrace 0 [ch]\<rparr>)
      else Inr (pushTerm QAtom (Chr ch) st))"

definition isDigit :: "char \<Rightarrow> bool" where
  "isDigit ch = ((of_char (CHR ''0'') :: nat) \<le> of_char ch \<and> (of_char ch :: nat) \<le> of_char (CHR ''9''))"

definition isIdentStart :: "char \<Rightarrow> bool" where
  "isIdentStart ch =
     (((of_char (CHR ''a'') :: nat) \<le> of_char ch \<and> (of_char ch :: nat) \<le> of_char (CHR ''z''))
      \<or> ((of_char (CHR ''A'') :: nat) \<le> of_char ch \<and> (of_char ch :: nat) \<le> of_char (CHR ''Z''))
      \<or> ch = CHR ''$'' \<or> ch = CHR ''_'')"

definition isSyntaxChar :: "char \<Rightarrow> bool" where
  "isSyntaxChar ch = (ch \<in> set ''^$.*+?()[]{}|/'' \<or> ch = CHR 0x5C)"

definition flushPend :: "cpend \<Rightarrow> (char \<times> char) list" where
  "flushPend p =
     (case p of PNone \<Rightarrow> [] | PChar a \<Rightarrow> [(a, a)] | PDash a \<Rightarrow> [(a, a), (CHR ''-'', CHR ''-'')])"

text \<open>
  One member of a character class: \<open>dash\<close> says that the character is an unescaped \<open>-\<close>,
  which after a single character announces a range.
\<close>

definition classItem :: "pstate \<Rightarrow> bool \<Rightarrow> (char \<times> char) list \<Rightarrow> cpend \<Rightarrow> char \<Rightarrow> bool
    \<Rightarrow> error + pstate" where
  "classItem st neg rs pend ch dash =
     (case pend of
        PNone \<Rightarrow> Inr (st\<lparr>mode := MClass neg rs (PChar ch)\<rparr>)
      | PChar a \<Rightarrow>
          if dash then Inr (st\<lparr>mode := MClass neg rs (PDash a)\<rparr>)
          else Inr (st\<lparr>mode := MClass neg (rs @ [(a, a)]) (PChar ch)\<rparr>)
      | PDash a \<Rightarrow>
          if (of_char a :: nat) \<le> of_char ch
          then Inr (st\<lparr>mode := MClass neg (rs @ [(a, ch)]) PNone\<rparr>)
          else Inl SyntaxError)"

definition pclass :: "pstate \<Rightarrow> bool \<Rightarrow> (char \<times> char) list \<Rightarrow> cpend \<Rightarrow> char \<Rightarrow> error + pstate" where
  "pclass st neg rs pend ch =
     (if ch = CHR '']'' then Inr (pushTerm QAtom (Class neg (rs @ flushPend pend)) st)
      else if ch = CHR 0x5C then Inr (st\<lparr>mode := MClassEsc neg rs pend\<rparr>)
      else classItem st neg rs pend ch (ch = CHR ''-''))"

text \<open>
  A \<open>{\<close> starts a bounded quantifier only if digits, an optional comma with optional
  digits, and \<open>}\<close> follow; otherwise the characters read since the \<open>{\<close> are ordinary
  characters.
\<close>

definition flushBrace :: "string \<Rightarrow> pstate \<Rightarrow> pstate" where
  "flushBrace acc st = foldl (\<lambda>s a. pushTerm QAtom (Chr a) s) (st\<lparr>mode := MNormal\<rparr>) acc"

definition pbrace :: "pstate \<Rightarrow> nat \<Rightarrow> string \<Rightarrow> char \<Rightarrow> error + pstate" where
  "pbrace st k acc ch =
     (if isDigit ch \<and> k \<noteq> 2 then Inr (st\<lparr>mode := MBrace (if k = 0 then 1 else k) (acc @ [ch])\<rparr>)
      else if isDigit ch then Inr (st\<lparr>mode := MBrace 3 (acc @ [ch])\<rparr>)
      else if ch = CHR '','' \<and> k = 1 then Inr (st\<lparr>mode := MBrace 2 (acc @ [ch])\<rparr>)
      else if ch = CHR ''}'' \<and> 0 < k then
        (if qf st = QAtom then Inl Unmodelled else Inl SyntaxError)
      else pnormal (flushBrace acc st) ch)"

definition pstep :: "pstate \<Rightarrow> char \<Rightarrow> error + pstate" where
  "pstep st ch =
     (case mode st of
        MNormal \<Rightarrow> pnormal st ch
      | MParen \<Rightarrow>
          if ch = CHR ''?'' then Inr (st\<lparr>mode := MParenQ\<rparr>)
          else pnormal (openFrame (GCap (ngr st) None) (st\<lparr>ngr := Suc (ngr st)\<rparr>)) ch
      | MParenQ \<Rightarrow>
          if ch = CHR '':'' then Inr (openFrame GNon st)
          else if ch = CHR ''='' then Inr (openFrame (GLook True) st)
          else if ch = CHR ''!'' then Inr (openFrame (GLook False) st)
          else if ch = CHR ''<'' then Inr (st\<lparr>mode := MName []\<rparr>)
          else if ch \<in> set ''ims-'' then Inl Unmodelled
          else Inl SyntaxError
      | MName acc \<Rightarrow>
          if ch = CHR ''>'' then
            (if acc = [] then Inl SyntaxError
             else if acc \<in> set (names st) then Inl Unmodelled
             else Inr (openFrame (GCap (ngr st) (Some acc))
                        (st\<lparr>ngr := Suc (ngr st), names := names st @ [acc]\<rparr>)))
          else if acc = [] \<and> (ch = CHR ''='' \<or> ch = CHR ''!'') then Inl Unmodelled
          else if ch = CHR 0x5C then Inl Unmodelled
          else if isIdentStart ch \<or> (acc \<noteq> [] \<and> isDigit ch)
            then Inr (st\<lparr>mode := MName (acc @ [ch])\<rparr>)
          else if (of_char ch :: nat) \<ge> 128 then Inl Unmodelled
          else Inl SyntaxError
      | MEsc \<Rightarrow>
          if isSyntaxChar ch then Inr (pushTerm QAtom (Chr ch) st) else Inl Unmodelled
      | MClass0 \<Rightarrow>
          if ch = CHR ''^'' then Inr (st\<lparr>mode := MClass True [] PNone\<rparr>)
          else pclass st False [] PNone ch
      | MClass neg rs pend \<Rightarrow> pclass st neg rs pend ch
      | MClassEsc neg rs pend \<Rightarrow>
          if isSyntaxChar ch \<or> ch = CHR ''-'' then classItem st neg rs pend ch False
          else Inl Unmodelled
      | MBrace k acc \<Rightarrow> pbrace st k acc ch)"

fun pfold :: "pstate \<Rightarrow> string \<Rightarrow> error + pstate" where
  "pfold st [] = Inr st"
| "pfold st (ch # cs) = (case pstep st ch of Inl e \<Rightarrow> Inl e | Inr st' \<Rightarrow> pfold st' cs)"

definition pfinish :: "pstate \<Rightarrow> error + regexp" where
  "pfinish st =
     (let st' = (case mode st of MBrace k acc \<Rightarrow> flushBrace acc st | _ \<Rightarrow> st)
      in case mode st' of
           MNormal \<Rightarrow>
             (case stack st' of
                [f] \<Rightarrow> Inr \<lparr>pattern = closeFrame f, ngroups = ngr st'\<rparr>
              | _ \<Rightarrow> Inl SyntaxError)
         | _ \<Rightarrow> Inl SyntaxError)"

definition pinit :: pstate where
  "pinit = \<lparr>stack = [(GTop, [], [])], ngr = 0, names = [], mode = MNormal, qf = QNone\<rparr>"

definition RegExp_new :: "string \<Rightarrow> error + regexp" where
  "RegExp_new src = (case pfold pinit src of Inl e \<Rightarrow> Inl e | Inr st \<Rightarrow> pfinish st)"


section \<open>The migration patterns\<close>

definition cls :: "string \<Rightarrow> regex" where
  "cls s = Class False (map (\<lambda>a. (a, a)) s)"

text \<open>The marker alternative and the lookahead that the patterns of the program share.\<close>

definition markerRe :: regex where
  "markerRe =
     Alt (mkSeq [Quant QOpt True (cls ''._-''), cls ''s|S'',
                 Chr CHR ''p'', Chr CHR ''e'', Chr CHR ''c'', Dot])
         (cls ''.'')"

definition scriptAhead :: regex where
  "scriptAhead = Look True (mkSeq [cls ''j|t'', Chr CHR ''s'', Quant QOpt True (cls ''x'')])"

definition getLegacyHighlightRegexp :: "string \<Rightarrow> string" where
  "getLegacyHighlightRegexp defaultFolder =
     ''cypress/(?<dir>'' @ defaultFolder @ '')/.*?(?<ext>[._-]?[s|S]pec.|[.])(?=[j|t]s[x]?)''"

definition getNewHighlightRegexp :: "string \<Rightarrow> string" where
  "getNewHighlightRegexp defaultFolder =
     ''cypress/(?<dir>'' @ defaultFolder @ '')/.*?(?<ext>.cy.)''"

text \<open>The four pattern texts of the constant \<open>regexps\<close>.\<close>

definition e2e_beforeRegexp :: string where
  "e2e_beforeRegexp = getLegacyHighlightRegexp ''integration''"

definition e2e_afterRegexp :: string where
  "e2e_afterRegexp = getNewHighlightRegexp ''e2e''"

definition component_beforeRegexp :: string where
  "component_beforeRegexp = getLegacyHighlightRegexp ''component''"

definition component_afterRegexp :: string where
  "component_afterRegexp = getNewHighlightRegexp ''component''"

text \<open>
  The compiled forms of the legacy and of the new pattern for a folder name made of
  ordinary characters, as \<open>new RegExp\<close> yields them from the pattern texts.
\<close>

definition legacyRe :: "string \<Rightarrow> regexp" where
  "legacyRe folder =
     \<lparr>pattern = mkSeq (map Chr ''cypress/'' @
                 [Group 0 (Some ''dir'') (mkSeq (map Chr folder)), Chr CHR ''/'',
                  Quant QStar False Dot, Group 1 (Some ''ext'') markerRe, scriptAhead]),
      ngroups = 2\<rparr>"

definition newRe :: "string \<Rightarrow> regexp" where
  "newRe folder =
     \<lparr>pattern = mkSeq (map Chr ''cypress/'' @
                 [Group 0 (Some ''dir'') (mkSeq (map Chr folder)), Chr CHR ''/'',
                  Quant QStar False Dot,
                  Group 1 (Some ''ext'') (mkSeq [Dot, Chr CHR ''c'', Chr CHR ''y'', Dot])]),
      ngroups = 2\<rparr>"

section \<open>Renaming a spec path\<close>

text \<open>The regular expression literal of \<open>renameSpecPath\<close>, as text and compiled.\<close>

definition specSuffixSrc :: string where
  "specSuffixSrc = ''([._-]?[s|S]pec.|[.])(?=[j|t]s[x]?)''"

definition specSuffixRe :: regexp where
  "specSuffixRe = \<lparr>pattern = Seq (Group 0 None markerRe) scriptAhead, ngroups = 1\<rparr>"

definition renameSpecPath :: "string \<Rightarrow> string" where
  "renameSpecPath spec = replaceRe specSuffixRe ''.cy.'' (replaceStr ''integration'' ''e2e'' spec)"



text \<open>
  The first rewrite of \<open>renameSpecPath\<close> as the specification words it: the path is cut at
  the separators \<open>/\<close>, and the first segment that is \<open>integration\<close> becomes \<open>e2e\<close>.
\<close>

fun splitSegments :: "string \<Rightarrow> string list" where
  "splitSegments [] = [[]]"
| "splitSegments (c # cs) =
     (if c = CHR ''/'' then [] # splitSegments cs
      else (case splitSegments cs of [] \<Rightarrow> [[c]] | seg # segs \<Rightarrow> (c # seg) # segs))"

fun replaceFirstEq :: "'a \<Rightarrow> 'a \<Rightarrow> 'a list \<Rightarrow> 'a list" where
  "replaceFirstEq a b [] = []"
| "replaceFirstEq a b (x # xs) = (if x = a then b # xs else x # replaceFirstEq a b xs)"

definition joinSegments :: "string list \<Rightarrow> string" where
  "joinSegments segs =
     (case segs of [] \<Rightarrow> [] | s # ss \<Rightarrow> s @ concat (map (\<lambda>x. ''/'' @ x) ss))"

definition replaceSegment_spec :: "string \<Rightarrow> string" where
  "replaceSegment_spec spec =
     joinSegments (replaceFirstEq ''integration'' ''e2e'' (splitSegments spec))"

text \<open>Whether a text occurs in a string, as a run of consecutive characters.\<close>

fun occursIn :: "string \<Rightarrow> string \<Rightarrow> bool" where
  "occursIn pat [] = (pat = [])"
| "occursIn pat (c # cs) = (take (length pat) (c # cs) = pat \<or> occursIn pat cs)"

section \<open>Annotating a spec path\<close>

text \<open>
  A part of a path.  The field \<open>text\<close> is written \<open>text'\<close> here; it is \<open>None\<close> where
  JavaScript has \<open>undefined\<close>, which \<open>split\<close> puts in for a group that took no part in a
  match.
\<close>

record FilePart =
  text' :: "string option"
  highlight :: bool

definition join :: "string \<Rightarrow> string list \<Rightarrow> string" where
  "join sep xs = (case xs of [] \<Rightarrow> [] | y # ys \<Rightarrow> y @ concat (map (\<lambda>x. sep @ x) ys))"

text \<open>
  \<open>String.prototype.split\<close> with a regular expression.  The loop keeps the piece
  collected since the last separator (\<open>cur\<close>) and the input not yet examined (\<open>rest\<close>).
  A match that is empty and lies where the piece starts is skipped; any other match ends
  the piece, and the piece and then every capture of the match, defined or not, are
  appended to the result.  The length limit of the result (\<open>2^32 - 1\<close> pieces) is not
  modelled.
\<close>

function splitLoop :: "regexp \<Rightarrow> nat \<Rightarrow> string \<Rightarrow> string \<Rightarrow> string option list
    \<Rightarrow> string option list" where
  "splitLoop rx n cur rest acc =
     (case rest of
        [] \<Rightarrow> acc @ [Some cur]
      | x # xs \<Rightarrow>
          (case matchAt rx n rest of
             None \<Rightarrow> splitLoop rx n (cur @ [x]) xs acc
           | Some (k, c) \<Rightarrow>
               if k = 0 \<and> cur = [] then splitLoop rx n (cur @ [x]) xs acc
               else splitLoop rx n [] (drop k rest) (acc @ Some cur # c)))"
  by pat_completeness auto
termination
  by (relation "measure (\<lambda>(rx, n, cur, rest, acc). 2 * length rest + (if cur = [] then 0 else 1))")
    auto

definition split :: "regexp \<Rightarrow> string \<Rightarrow> string option list" where
  "split rx s =
     (if s = [] then (case matchAt rx 0 [] of None \<Rightarrow> [Some []] | Some _ \<Rightarrow> [])
      else splitLoop rx (length s) [] s [])"

text \<open>
  The \<open>groups\<close> object of a match: absent when the pattern has no named group, else the
  named groups in the order of the pattern, each with its capture.
\<close>

definition capAt :: "caps \<Rightarrow> nat \<Rightarrow> string option" where
  "capAt c i = (if i < length c then c ! i else None)"

definition matchGroups :: "regexp \<Rightarrow> caps \<Rightarrow> (string \<times> string option) list option" where
  "matchGroups rx c =
     (case namedGroups (pattern rx) of
        [] \<Rightarrow> None
      | g # gs \<Rightarrow> Some (map (\<lambda>(name, i). (name, capAt c i)) (g # gs)))"

text \<open>
  \<open>formatMigrationFile\<close>.  Reading \<open>length\<close> of a group that did not take part in the
  match raises a \<open>TypeError\<close>; compiling the pattern built from the captured texts can
  raise a \<open>SyntaxError\<close>.  The message of the \<open>NonSpecFileError\<close> is not modelled.
\<close>

definition formatMigrationFile :: "string \<Rightarrow> regexp \<Rightarrow> error + FilePart list" where
  "formatMigrationFile file regexp =
     (case exec regexp file of
        None \<Rightarrow> Inl NonSpecFileError
      | Some (pre, matched, post, c) \<Rightarrow>
          (case matchGroups regexp c of
             None \<Rightarrow> Inl NonSpecFileError
           | Some groups \<Rightarrow>
               (case those (map snd groups) of
                  None \<Rightarrow> Inl TypeError
                | Some vals \<Rightarrow>
                    let higlights = filter (\<lambda>x. length x > 1) vals;
                        delimiters = join ''|'' higlights
                    in case RegExp_new (''('' @ delimiters @ '')'') of
                         Inl e \<Rightarrow> Inl e
                       | Inr re \<Rightarrow>
                           Inr (map (\<lambda>t. \<lparr>text' = t, highlight = (t \<in> Some ` set higlights)\<rparr>)
                                 (split re file)))))"

text \<open>
  The texts that the marker alternative of the patterns can match: a lone dot, or an
  optional separator, one of \<open>s\<close>, \<open>|\<close>, \<open>S\<close>, then \<open>pec\<close> and one more character that is
  not a line terminator.
\<close>

definition isMarker :: "string \<Rightarrow> bool" where
  "isMarker w = (w = ''.'' \<or>
     (\<exists>p a b. w = p @ [a] @ ''pec'' @ [b] \<and> p \<in> {[], ''.'', ''_'', ''-''}
        \<and> a \<in> {CHR ''s'', CHR ''|'', CHR ''S''} \<and> \<not> isLineTerminator b))"


section \<open>Configuration values and objects\<close>

text \<open>
  The values of a configuration: the values of JSON, and \<open>undefined\<close>.  Numbers are
  the integers that a JavaScript number holds exactly (of magnitude below \<open>2^53\<close>).  An
  object is the list of its properties in the order in which
  JavaScript enumerates them: names that are array indices first, in ascending order, then
  all other names in the order of their creation.
\<close>

datatype jsval =
    VUndefined
  | VNull
  | VBool bool
  | VNum int
  | VStr string
  | VArr "jsval list"
  | VObj "(string \<times> jsval) list"

type_synonym obj = "(string \<times> jsval) list"

definition readInt :: "string \<Rightarrow> int" where
  "readInt k = foldl (\<lambda>n c. 10 * n + (of_char c - 48)) 0 k"

function showNat :: "nat \<Rightarrow> string" where
  "showNat n =
     (if n < 10 then [char_of (48 + n)] else showNat (n div 10) @ [char_of (48 + n mod 10)])"
  by pat_completeness auto
termination
  by (relation "measure id") auto

text \<open>An array index is the decimal numeral, without leading zero, of a number below \<open>2^32 - 1\<close>.\<close>

definition isArrayIndex :: "string \<Rightarrow> bool" where
  "isArrayIndex k =
     (k \<noteq> [] \<and> list_all isDigit k \<and> (k = ''0'' \<or> hd k \<noteq> CHR ''0'') \<and> readInt k < 4294967295)"

fun insertIndex :: "string \<Rightarrow> jsval \<Rightarrow> obj \<Rightarrow> obj" where
  "insertIndex k v [] = [(k, v)]"
| "insertIndex k v ((k', v') # ps) =
     (if isArrayIndex k' \<and> readInt k' < readInt k then (k', v') # insertIndex k v ps
      else (k, v) # (k', v') # ps)"

text \<open>Defining a property: an existing one keeps its place and takes the new value.\<close>

definition objSet :: "obj \<Rightarrow> string \<Rightarrow> jsval \<Rightarrow> obj" where
  "objSet ob k v =
     (if k \<in> fst ` set ob then map (\<lambda>(k', v'). if k' = k then (k', v) else (k', v')) ob
      else if isArrayIndex k then insertIndex k v ob
      else ob @ [(k, v)])"

definition objGet :: "obj \<Rightarrow> string \<Rightarrow> jsval" where
  "objGet ob k = (case map_of ob k of None \<Rightarrow> VUndefined | Some v \<Rightarrow> v)"

text \<open>
  The properties that the spread syntax \<open>{...v}\<close> copies: those of an object, the elements
  of an array and the characters of a string under their indices, none for the other values.
\<close>

definition indexed :: "jsval list \<Rightarrow> obj" where
  "indexed xs = zip (map showNat [0..<length xs]) xs"

fun spread :: "jsval \<Rightarrow> obj" where
  "spread (VObj ps) = ps"
| "spread (VArr xs) = indexed xs"
| "spread (VStr s) = indexed (map (\<lambda>c. VStr [c]) s)"
| "spread v = []"

text \<open>\<open>{...a, ...b}\<close> for an object \<open>a\<close> and the properties \<open>b\<close> of the value spread.\<close>

definition objMerge :: "obj \<Rightarrow> obj \<Rightarrow> obj" where
  "objMerge a b = foldl (\<lambda>ob (k, v). objSet ob k v) a b"

fun truthy :: "jsval \<Rightarrow> bool" where
  "truthy VUndefined = False"
| "truthy VNull = False"
| "truthy (VBool b) = b"
| "truthy (VNum n) = (n \<noteq> 0)"
| "truthy (VStr s) = (s \<noteq> [])"
| "truthy v = True"

text \<open>The conversion to a string that a template literal applies.\<close>

fun toStr :: "jsval \<Rightarrow> string" where
  "toStr VUndefined = ''undefined''"
| "toStr VNull = ''null''"
| "toStr (VBool b) = (if b then ''true'' else ''false'')"
| "toStr (VNum n) = (if n < 0 then ''-'' @ showNat (nat (- n)) else showNat (nat n))"
| "toStr (VStr s) = s"
| "toStr (VArr xs) =
     join '','' (map (\<lambda>x. case x of VUndefined \<Rightarrow> [] | VNull \<Rightarrow> [] | _ \<Rightarrow> toStr x) xs)"
| "toStr (VObj ps) = ''[object Object]''"

section \<open>Reducing a configuration\<close>

record ConfigOptions =
  global :: obj
  e2e :: obj
  component :: obj

definition excludedFields :: "string list" where
  "excludedFields = [''pluginsFile'', ''$schema'', ''componentFolder'']"

text \<open>The function that \<open>reduceConfig\<close> folds over the entries of the configuration.\<close>

definition reduceStep :: "ConfigOptions \<Rightarrow> string \<times> jsval \<Rightarrow> ConfigOptions" where
  "reduceStep acc entry =
     (case entry of (key, val) \<Rightarrow>
        if key \<in> set excludedFields then acc
        else if key = ''e2e'' then acc\<lparr>e2e := objMerge (e2e acc) (spread val)\<rparr>
        else if key = ''component'' then acc\<lparr>component := objMerge (component acc) (spread val)\<rparr>
        else if key = ''testFiles'' then
          acc\<lparr>e2e := objSet (e2e acc) ''specPattern'' val,
              component := objSet (component acc) ''specPattern'' val\<rparr>
        else if key = ''baseUrl'' then acc\<lparr>e2e := objSet (e2e acc) key val\<rparr>
        else acc\<lparr>global := objSet (global acc) key val\<rparr>)"

definition reduceConfig :: "obj \<Rightarrow> ConfigOptions" where
  "reduceConfig cfg = foldl reduceStep \<lparr>global = [], e2e = [], component = []\<rparr> cfg"

section \<open>Rendering the configuration module\<close>

text \<open>
  \<open>path.normalize\<close> leaves the default plugin path as it is (on POSIX systems).  The
  plugin path is the value of \<open>pluginsFile\<close> if that is truthy, else the default.
\<close>

definition DEFAULT_PLUGIN_PATH :: string where
  "DEFAULT_PLUGIN_PATH = ''/cypress/plugins/index.js''"

definition getPluginRelativePath :: "obj \<Rightarrow> jsval" where
  "getPluginRelativePath cfg =
     (if truthy (objGet cfg ''pluginsFile'') then objGet cfg ''pluginsFile''
      else VStr DEFAULT_PLUGIN_PATH)"

text \<open>\<open>String.prototype.replace\<close> with a regular expression that has the global flag.\<close>

function replaceAllLoop :: "regexp \<Rightarrow> nat \<Rightarrow> string \<Rightarrow> string \<Rightarrow> string" where
  "replaceAllLoop rx n rep s =
     (case matchAt rx n s of
        None \<Rightarrow> (case s of [] \<Rightarrow> [] | x # xs \<Rightarrow> x # replaceAllLoop rx n rep xs)
      | Some (k, c) \<Rightarrow>
          if k = 0 then (case s of [] \<Rightarrow> rep | x # xs \<Rightarrow> rep @ x # replaceAllLoop rx n rep xs)
          else rep @ replaceAllLoop rx n rep (drop k s))"
  by pat_completeness auto
termination
  by (relation "measure (\<lambda>(rx, n, rep, s). length s)")
     (auto simp: matchAt_def split: list.splits)

definition replaceAllRe :: "regexp \<Rightarrow> string \<Rightarrow> string \<Rightarrow> string" where
  "replaceAllRe rx rep s = replaceAllLoop rx (length s) rep s"

definition isWhiteSpace :: "char \<Rightarrow> bool" where
  "isWhiteSpace ch = ((of_char ch :: nat) \<in> {9, 10, 11, 12, 13, 32, 160})"

definition trim :: "string \<Rightarrow> string" where
  "trim s = rev (dropWhile isWhiteSpace (rev (dropWhile isWhiteSpace s)))"

text \<open>The pattern \<open>/^[{]|[}]$/g\<close> of \<open>formatObjectForConfig\<close>, as text and compiled.\<close>

definition bracesSrc :: string where
  "bracesSrc = ''^[{]|[}]$''"

definition bracesRe :: regexp where
  "bracesRe = \<lparr>pattern = Alt (Seq Bol (cls ''{'')) (Seq (cls ''}'') Eol), ngroups = 0\<rparr>"

text \<open>
  The package \<open>stringify-object\<close> is not part of the program: \<open>stringify\<close> stands for it, as
  a function of the object and the indentation.
\<close>

definition formatObjectForConfig :: "(obj \<Rightarrow> string \<Rightarrow> string) \<Rightarrow> obj \<Rightarrow> nat \<Rightarrow> string" where
  "formatObjectForConfig stringify ob spaces =
     trim (replaceAllRe bracesRe [] (stringify ob (replicate spaces CHR '' '')))"

datatype TestingType = e2eType | componentType

fun testingTypeName :: "TestingType \<Rightarrow> string" where
  "testingTypeName e2eType = ''e2e''"
| "testingTypeName componentType = ''component''"

definition nl :: string where
  "nl = [CHR 0x0A]"

definition quote :: string where
  "quote = [CHR 0x27]"

definition createTestingTypeTemplate ::
    "(obj \<Rightarrow> string \<Rightarrow> string) \<Rightarrow> TestingType \<Rightarrow> jsval \<Rightarrow> obj \<Rightarrow> string" where
  "createTestingTypeTemplate stringify testingType pluginPath options =
     nl @ ''  '' @ testingTypeName testingType @ '': {'' @
     nl @ ''    setupNodeEvents(on, config) {'' @
     nl @ ''      return require('' @ quote @ toStr pluginPath @ quote @ '')'' @
     nl @ ''    },'' @
     nl @ ''    '' @ formatObjectForConfig stringify options 4 @
     nl @ ''  },''"

definition createCypressConfigJs ::
    "(obj \<Rightarrow> string \<Rightarrow> string) \<Rightarrow> ConfigOptions \<Rightarrow> jsval \<Rightarrow> string" where
  "createCypressConfigJs stringify config pluginPath =
     (let globalString =
            (if length (map fst (global config)) > 0
             then nl @ formatObjectForConfig stringify (global config) 2 @ '',''
             else []);
          componentString =
            (if length (map fst (component config)) > 0
             then createTestingTypeTemplate stringify componentType pluginPath (component config)
             else []);
          e2eString =
            (if length (map fst (e2e config)) > 0
             then createTestingTypeTemplate stringify e2eType pluginPath (e2e config)
             else [])
      in ''const { defineConfig } = require('' @ quote @ ''cypress'' @ quote @ '')'' @ nl @ nl @
         ''module.exports = defineConfig({'' @ globalString @ e2eString @ componentString @
         nl @ ''})'')"

definition createConfigString :: "(obj \<Rightarrow> string \<Rightarrow> string) \<Rightarrow> obj \<Rightarrow> string" where
  "createConfigString stringify cfg =
     createCypressConfigJs stringify (reduceConfig cfg) (getPluginRelativePath cfg)"

text \<open>
  The option names that the objects under a key (\<open>e2e\<close> or \<open>component\<close>) bring along, and the
  names that \<open>reduceConfig\<close> treats specially.
\<close>

definition nestedNames :: "string \<Rightarrow> obj \<Rightarrow> string list" where
  "nestedNames key cfg = concat (map (\<lambda>(k, v). if k = key then map fst (spread v) else []) cfg)"

definition specialNames :: "string list" where
  "specialNames = excludedFields @ [''e2e'', ''component'', ''testFiles'', ''baseUrl'']"

section \<open>Listing the spec files\<close>

text \<open>
  The package \<open>globby\<close> and the file system are not part of the program.  \<open>globby\<close>
  stands for the listing, as a function of the glob pattern and the working directory
  that yields the files found or the reason of its rejection.  \<open>Promise.all\<close> rejects
  with the reason of the promise that rejects first; when both listings reject, which one
  that is depends on their timing, given here by \<open>componentFirst\<close>.
\<close>

record RelativeSpecWithTestingType =
  testingType :: TestingType
  relative :: string

record Specs =
  before :: "RelativeSpecWithTestingType list"
  after :: "RelativeSpecWithTestingType list"

definition findByTestingType ::
    "(string \<Rightarrow> string \<Rightarrow> 'e + string list) \<Rightarrow> string \<Rightarrow> string option \<Rightarrow> TestingType
     \<Rightarrow> 'e + RelativeSpecWithTestingType list" where
  "findByTestingType globby cwd dir tt =
     (case dir of
        None \<Rightarrow> Inr []
      | Some d \<Rightarrow>
          if d = [] then Inr []
          else (case globby (d @ ''/**/*'') cwd of
                  Inl err \<Rightarrow> Inl err
                | Inr files \<Rightarrow> Inr (map (\<lambda>rel. \<lparr>testingType = tt, relative = rel\<rparr>) files)))"

definition getSpecs ::
    "(string \<Rightarrow> string \<Rightarrow> 'e + string list) \<Rightarrow> bool \<Rightarrow> string \<Rightarrow> string option \<Rightarrow> string option
     \<Rightarrow> 'e + Specs" where
  "getSpecs globby componentFirst projectRoot componentDirPath e2eDirPath =
     (case (findByTestingType globby projectRoot componentDirPath componentType,
            findByTestingType globby projectRoot e2eDirPath e2eType) of
        (Inr comps, Inr e2es) \<Rightarrow>
          Inr \<lparr>before = comps @ e2es,
               after = map (\<lambda>x. \<lparr>testingType = testingType x,
                                  relative = renameSpecPath (relative x)\<rparr>) (comps @ e2es)\<rparr>
      | (Inl err, Inr e2es) \<Rightarrow> Inl err
      | (Inr comps, Inl err) \<Rightarrow> Inl err
      | (Inl err1, Inl err2) \<Rightarrow> Inl (if componentFirst then err1 else err2))"

section \<open>Moving the spec files\<close>










section \<open>The pattern texts compile to the patterns used\<close>

lemmas parse_defs = RegExp_new_def pinit_def pstep_def pnormal_def pquant_def pclass_def
  classItem_def pbrace_def flushBrace_def pfinish_def pushTerm_def openFrame_def closeFrame_def
  quantKind_def isDigit_def isIdentStart_def isSyntaxChar_def flushPend_def

lemmas pattern_defs = markerRe_def scriptAhead_def cls_def

lemma specSuffix_compiles: "RegExp_new specSuffixSrc = Inr specSuffixRe"
  by (simp add: parse_defs specSuffixSrc_def specSuffixRe_def pattern_defs)

lemma legacy_compiles_integration:
  "RegExp_new e2e_beforeRegexp = Inr (legacyRe ''integration'')"
  by (simp add: parse_defs e2e_beforeRegexp_def getLegacyHighlightRegexp_def legacyRe_def
        pattern_defs)

lemma legacy_compiles_component:
  "RegExp_new component_beforeRegexp = Inr (legacyRe ''component'')"
  by (simp add: parse_defs component_beforeRegexp_def getLegacyHighlightRegexp_def legacyRe_def
        pattern_defs)

lemma new_compiles_e2e:
  "RegExp_new e2e_afterRegexp = Inr (newRe ''e2e'')"
  by (simp add: parse_defs e2e_afterRegexp_def getNewHighlightRegexp_def newRe_def)

lemma new_compiles_component:
  "RegExp_new component_afterRegexp = Inr (newRe ''component'')"
  by (simp add: parse_defs component_afterRegexp_def getNewHighlightRegexp_def newRe_def)

lemma braces_compiles: "RegExp_new bracesSrc = Inr bracesRe"
  by (simp add: parse_defs bracesSrc_def bracesRe_def cls_def)

section \<open>Properties of the matcher\<close>

declare matchR.simps(11) [simp del]


lemma clearCaps_length [simp]: "length (clearCaps is c) = length c"
  by (induction "is" arbitrary: c) auto














declare matchR.simps [simp del]

section \<open>What the legacy pattern captures\<close>





section \<open>Splitting on a single group\<close>




declare splitLoop.simps [simp del]



section \<open>The pattern built from the captured texts\<close>








lemma isMarker_length: "isMarker w \<Longrightarrow> length w > 1 \<longleftrightarrow> w \<noteq> ''.''"
  by (auto simp: isMarker_def)

text \<open>
  Compiling a pattern raises no error but a \<open>SyntaxError\<close>; so \<open>formatMigrationFile\<close> raises
  a \<open>NonSpecFileError\<close> exactly when the pattern does not match or has no named group.
\<close>

lemma pstep_errors: "pstep st ch = Inl e \<Longrightarrow> e = SyntaxError \<or> e = Unmodelled"
  by (auto simp: pstep_def pnormal_def pquant_def pclass_def classItem_def pbrace_def
      split: pmode.splits if_splits list.splits prod.splits qflag.splits regex.splits cpend.splits)

lemma pfold_errors: "pfold st src = Inl e \<Longrightarrow> e = SyntaxError \<or> e = Unmodelled"
  by (induction src arbitrary: st) (auto split: sum.splits dest: pstep_errors)

lemma RegExp_new_errors: "RegExp_new src = Inl e \<Longrightarrow> e = SyntaxError \<or> e = Unmodelled"
  by (auto simp: RegExp_new_def pfinish_def Let_def split: sum.splits pmode.splits list.splits
      dest: pfold_errors)

lemma formatMigrationFile_NonSpecFileError:
  "formatMigrationFile file rx = Inl NonSpecFileError \<longleftrightarrow>
     exec rx file = None \<or> namedGroups (pattern rx) = []"
proof (cases "exec rx file")
  case None
  then show ?thesis by (simp add: formatMigrationFile_def)
next
  case (Some r)
  obtain pre m post c where r: "r = (pre, m, post, c)" by (cases r)
  show ?thesis
  proof (cases "namedGroups (pattern rx)")
    case Nil
    with Some r show ?thesis by (simp add: formatMigrationFile_def matchGroups_def)
  next
    case (Cons g gs)
    have mg: "matchGroups rx c = Some (map (\<lambda>(name, i). (name, capAt c i)) (g # gs))"
      unfolding matchGroups_def Cons by simp
    have "formatMigrationFile file rx \<noteq> Inl NonSpecFileError"
      by (auto simp: formatMigrationFile_def Some r mg Let_def split: option.splits sum.splits
            dest: RegExp_new_errors)
    with Some Cons show ?thesis by simp
  qed
qed



section \<open>Replacing the first occurrence\<close>

lemma replaceStr_unfold:
  "replaceStr pat rep s =
     (if take (length pat) s = pat then rep @ drop (length pat) s
      else case s of [] \<Rightarrow> [] | c # cs \<Rightarrow> c # replaceStr pat rep cs)"
  by (cases s) auto

lemma replaceStr_here:
  "replaceStr pat rep (pat @ post) = rep @ post"
  by (subst replaceStr_unfold) simp

lemma replaceStr_first:
  assumes "pat \<noteq> []"
    and "\<not> (\<exists>u v. pre @ butlast pat = u @ pat @ v)"
  shows "replaceStr pat rep (pre @ pat @ post) = pre @ rep @ post"
  using assms(2)
proof (induction pre)
  case Nil
  then show ?case by (simp add: replaceStr_here)
next
  case (Cons a pre)
  have no0: "take (length pat) ((a # pre) @ pat @ post) \<noteq> pat"
  proof
    assume t: "take (length pat) ((a # pre) @ pat @ post) = pat"
    have l: "length pat \<le> length ((a # pre) @ butlast pat)" using assms(1) by simp
    have "(a # pre) @ pat @ post = ((a # pre) @ butlast pat) @ (last pat # post)"
      using assms(1) by simp
    then have "take (length pat) ((a # pre) @ pat @ post) = take (length pat) ((a # pre) @ butlast pat)"
      using l by (metis append_eq_conv_conj take_all take_append diff_is_0_eq' append_Nil2 take_0)
    with t have "(a # pre) @ butlast pat = [] @ pat @ drop (length pat) ((a # pre) @ butlast pat)"
      by (metis append_Nil append_take_drop_id)
    with Cons.prems show False by blast
  qed
  have "\<not> (\<exists>u v. pre @ butlast pat = u @ pat @ v)"
  proof
    assume "\<exists>u v. pre @ butlast pat = u @ pat @ v"
    then obtain u v where "pre @ butlast pat = u @ pat @ v" by blast
    then have "(a # pre) @ butlast pat = (a # u) @ pat @ v" by simp
    with Cons.prems show False by blast
  qed
  from Cons.IH[OF this] no0 show ?case by simp
qed

lemma replaceStr_none:
  assumes "\<not> (\<exists>u v. s = u @ pat @ v)"
  shows "replaceStr pat rep s = s"
  using assms
proof (induction s)
  case Nil
  then show ?case by (cases pat) auto
next
  case (Cons a s)
  have "take (length pat) (a # s) \<noteq> pat"
  proof
    assume "take (length pat) (a # s) = pat"
    then have "a # s = [] @ pat @ drop (length pat) (a # s)"
      by (metis append_Nil append_take_drop_id)
    with Cons.prems show False by blast
  qed
  moreover have "\<not> (\<exists>u v. s = u @ pat @ v)"
  proof
    assume "\<exists>u v. s = u @ pat @ v"
    then obtain u v where "s = u @ pat @ v" by blast
    then have "a # s = (a # u) @ pat @ v" by simp
    with Cons.prems show False by blast
  qed
  ultimately show ?case using Cons.IH by simp
qed

lemma occursIn_iff: "occursIn pat s \<longleftrightarrow> (\<exists>u v. s = u @ pat @ v)"
proof (induction s)
  case Nil
  then show ?case by auto
next
  case (Cons c cs)
  show ?case
  proof
    assume "occursIn pat (c # cs)"
    then consider "take (length pat) (c # cs) = pat" | "occursIn pat cs" by auto
    then show "\<exists>u v. c # cs = u @ pat @ v"
    proof cases
      case 1
      then have "c # cs = [] @ pat @ drop (length pat) (c # cs)"
        by (metis append_Nil append_take_drop_id)
      then show ?thesis by blast
    next
      case 2
      with Cons.IH obtain u v where "cs = u @ pat @ v" by blast
      then have "c # cs = (c # u) @ pat @ v" by simp
      then show ?thesis by blast
    qed
  next
    assume "\<exists>u v. c # cs = u @ pat @ v"
    then obtain u v where uv: "c # cs = u @ pat @ v" by blast
    show "occursIn pat (c # cs)"
    proof (cases u)
      case Nil
      with uv have "take (length pat) (c # cs) = pat" by simp
      then show ?thesis by simp
    next
      case (Cons a u')
      with uv have "cs = u' @ pat @ v" by simp
      with Cons.IH have "occursIn pat cs" by blast
      then show ?thesis by simp
    qed
  qed
qed

lemma replaceSegment_spec_example:
  "replaceSegment_spec ''cypress/integration/integration/a.js'' = ''cypress/e2e/integration/a.js''"
  by code_simp

section \<open>Objects and the reduced configuration\<close>

lemma insertIndex_keys: "fst ` set (insertIndex k v ob) = insert k (fst ` set ob)"
  by (induction ob) force+

lemma map_upd_keys:
  "map fst (map (\<lambda>(k', v'). if k' = k then (k', v) else (k', v')) ob) = map fst ob"
  by (induction ob) auto

lemma objSet_keys: "fst ` set (objSet ob k v) = insert k (fst ` set ob)"
proof (cases "k \<in> fst ` set ob")
  case True
  have "fst ` set (map (\<lambda>(k', v'). if k' = k then (k', v) else (k', v')) ob) = fst ` set ob"
    using map_upd_keys[of k v ob] by (metis set_map)
  with True show ?thesis by (auto simp: objSet_def)
next
  case False
  then show ?thesis by (simp add: objSet_def insertIndex_keys)
qed

lemma objMerge_keys: "fst ` set (objMerge a b) = fst ` set a \<union> fst ` set b"
  unfolding objMerge_def
proof (induction b arbitrary: a)
  case Nil
  then show ?case by simp
next
  case (Cons x b)
  obtain k v where x: "x = (k, v)" by (cases x)
  show ?case using Cons.IH[of "objSet a k v"] by (simp add: x objSet_keys)
qed

lemma map_of_insertIndex:
  "map_of ob k = None \<Longrightarrow> map_of (insertIndex k v ob) x = (if x = k then Some v else map_of ob x)"
  by (induction ob) (auto split: if_splits)

lemma map_of_upd:
  "map_of (map (\<lambda>(k', v'). if k' = k then (k', v) else (k', v')) ob) x =
     (if x = k then map_option (\<lambda>_. v) (map_of ob k) else map_of ob x)"
  by (induction ob) auto

lemma map_of_objSet: "map_of (objSet ob k v) x = (if x = k then Some v else map_of ob x)"
proof (cases "k \<in> fst ` set ob")
  case True
  then obtain w where "map_of ob k = Some w"
    by (metis map_of_eq_None_iff not_None_eq)
  with True show ?thesis by (simp add: objSet_def map_of_upd)
next
  case False
  then have n: "map_of ob k = None" by (simp add: map_of_eq_None_iff)
  show ?thesis
  proof (cases "isArrayIndex k")
    case True
    with False n show ?thesis by (simp add: objSet_def map_of_insertIndex)
  next
    case ni: False
    with False n show ?thesis by (auto simp: objSet_def map_add_def split: option.splits)
  qed
qed

lemma objGet_objSet: "objGet (objSet ob k v) k' = (if k' = k then v else objGet ob k')"
  by (simp add: objGet_def map_of_objSet)

lemma map_of_objMerge:
  "distinct (map fst b) \<Longrightarrow>
   map_of (objMerge a b) x = (case map_of b x of None \<Rightarrow> map_of a x | Some v \<Rightarrow> Some v)"
  unfolding objMerge_def
proof (induction b arbitrary: a)
  case Nil
  then show ?case by simp
next
  case (Cons y b)
  obtain k v where y: "y = (k, v)" by (cases y)
  from Cons.prems y have d: "distinct (map fst b)" and k: "k \<notin> fst ` set b" by auto
  from k have n: "map_of b k = None" by (simp add: map_of_eq_None_iff)
  show ?case using Cons.IH[OF d, of "objSet a k v"] n
    by (auto simp: y map_of_objSet split: option.splits)
qed

lemma reduceConfig_snoc: "reduceConfig (cfg @ [x]) = reduceStep (reduceConfig cfg) x"
  by (simp add: reduceConfig_def)

lemma reduceConfig_Nil: "reduceConfig [] = \<lparr>global = [], e2e = [], component = []\<rparr>"
  by (simp add: reduceConfig_def)

lemma nestedNames_snoc:
  "set (nestedNames key (cfg @ [(k, v)])) =
     set (nestedNames key cfg) \<union> (if k = key then fst ` set (spread v) else {})"
  by (simp add: nestedNames_def)

lemma reduceStep_global:
  "fst ` set (global (reduceStep acc (k, v))) =
     (if k \<in> set specialNames then fst ` set (global acc) else insert k (fst ` set (global acc)))"
  by (simp add: reduceStep_def objSet_keys specialNames_def excludedFields_def)

lemma reduceStep_e2e:
  "fst ` set (e2e (reduceStep acc (k, v))) =
     fst ` set (e2e acc) \<union>
     (if k = ''e2e'' then fst ` set (spread v)
      else if k = ''testFiles'' then {''specPattern''}
      else if k = ''baseUrl'' then {''baseUrl''} else {})"
  by (simp add: reduceStep_def objSet_keys objMerge_keys excludedFields_def)

lemma reduceStep_component:
  "fst ` set (component (reduceStep acc (k, v))) =
     fst ` set (component acc) \<union>
     (if k = ''component'' then fst ` set (spread v)
      else if k = ''testFiles'' then {''specPattern''} else {})"
  by (simp add: reduceStep_def objSet_keys objMerge_keys excludedFields_def)

lemma global_keys:
  "fst ` set (global (reduceConfig cfg)) = {k \<in> fst ` set cfg. k \<notin> set specialNames}"
proof (induction cfg rule: rev_induct)
  case Nil
  then show ?case by (simp add: reduceConfig_Nil)
next
  case (snoc x cfg)
  obtain k v where x: "x = (k, v)" by (cases x)
  show ?case unfolding reduceConfig_snoc x reduceStep_global snoc.IH
    by auto
qed

lemma e2e_keys:
  "fst ` set (e2e (reduceConfig cfg)) =
     (if ''testFiles'' \<in> fst ` set cfg then {''specPattern''} else {}) \<union>
     (if ''baseUrl'' \<in> fst ` set cfg then {''baseUrl''} else {}) \<union>
     set (nestedNames ''e2e'' cfg)"
proof (induction cfg rule: rev_induct)
  case Nil
  then show ?case by (simp add: reduceConfig_Nil nestedNames_def)
next
  case (snoc x cfg)
  obtain k v where x: "x = (k, v)" by (cases x)
  show ?case unfolding reduceConfig_snoc x nestedNames_snoc reduceStep_e2e snoc.IH
    by auto
qed

lemma component_keys:
  "fst ` set (component (reduceConfig cfg)) =
     (if ''testFiles'' \<in> fst ` set cfg then {''specPattern''} else {}) \<union>
     set (nestedNames ''component'' cfg)"
proof (induction cfg rule: rev_induct)
  case Nil
  then show ?case by (simp add: reduceConfig_Nil nestedNames_def)
next
  case (snoc x cfg)
  obtain k v where x: "x = (k, v)" by (cases x)
  show ?case unfolding reduceConfig_snoc x nestedNames_snoc reduceStep_component snoc.IH
    by auto
qed

section \<open>Moves in sequence\<close>











section \<open>Renaming: the examples\<close>

text \<open>
  C1. \<open>renameSpecPath\<close> maps \<open>cypress/integration/foo.spec.js\<close> to
  \<open>cypress/e2e/foo.cy.js\<close> and \<open>cypress/integration/foo_spec.ts\<close> to
  \<open>cypress/e2e/foo.cy.ts\<close>.
\<close>

theorem renameSpecPath_examples:
  "renameSpecPath ''cypress/integration/foo.spec.js'' = ''cypress/e2e/foo.cy.js'' \<and>
   renameSpecPath ''cypress/integration/foo_spec.ts'' = ''cypress/e2e/foo.cy.ts''"
  by code_simp

section \<open>Renaming: the first rewrite\<close>

text \<open>
  C2, as amended.  The first rewrite of \<open>renameSpecPath\<close> replaces the first occurrence of
  the text \<open>integration\<close> by \<open>e2e\<close> wherever in the path it occurs, also inside a longer
  segment name; what precedes and what follows that occurrence is left as it is, later
  occurrences included, and a path in which the text does not occur is left unchanged.
\<close>

theorem replace_first_occurrence:
  "(\<not> (\<exists>u v. spec = u @ ''integration'' @ v) \<longrightarrow> replaceStr ''integration'' ''e2e'' spec = spec) \<and>
   (\<forall>pre post. spec = pre @ ''integration'' @ post \<and>
        \<not> (\<exists>u v. pre @ ''integratio'' = u @ ''integration'' @ v) \<longrightarrow>
        replaceStr ''integration'' ''e2e'' spec = pre @ ''e2e'' @ post) \<and>
   renameSpecPath spec = replaceRe specSuffixRe ''.cy.'' (replaceStr ''integration'' ''e2e'' spec)"
proof (intro conjI allI impI)
  assume "\<not> (\<exists>u v. spec = u @ ''integration'' @ v)"
  then show "replaceStr ''integration'' ''e2e'' spec = spec" by (rule replaceStr_none)
next
  fix pre post
  assume a: "spec = pre @ ''integration'' @ post \<and>
        \<not> (\<exists>u v. pre @ ''integratio'' = u @ ''integration'' @ v)"
  have "replaceStr ''integration'' ''e2e'' (pre @ ''integration'' @ post) = pre @ ''e2e'' @ post"
    by (rule replaceStr_first) (use a in simp_all)
  with a show "replaceStr ''integration'' ''e2e'' spec = pre @ ''e2e'' @ post" by simp
next
  show "renameSpecPath spec = replaceRe specSuffixRe ''.cy.'' (replaceStr ''integration'' ''e2e'' spec)"
    by (simp add: renameSpecPath_def)
qed

theorem replace_first_occurrence_witness:
  "(\<not> (\<exists>u v. ''cypress/e2e/a.js'' = u @ ''integration'' @ v) \<and>
    replaceStr ''integration'' ''e2e'' ''cypress/e2e/a.js'' = ''cypress/e2e/a.js'') \<and>
   (''cypress/my-integration/integration/a.js'' = ''cypress/my-'' @ ''integration'' @ ''/integration/a.js'' \<and>
    \<not> (\<exists>u v. ''cypress/my-'' @ ''integratio'' = u @ ''integration'' @ v) \<and>
    replaceStr ''integration'' ''e2e'' ''cypress/my-integration/integration/a.js''
      = ''cypress/my-e2e/integration/a.js'')"
proof -
  have n1: "\<not> (\<exists>u v. ''cypress/e2e/a.js'' = u @ ''integration'' @ v)"
    unfolding occursIn_iff[symmetric] by simp
  have e2: "''cypress/my-integration/integration/a.js'' = ''cypress/my-'' @ ''integration'' @ ''/integration/a.js''"
    by simp
  have n2: "\<not> (\<exists>u v. ''cypress/my-'' @ ''integratio'' = u @ ''integration'' @ v)"
    unfolding occursIn_iff[symmetric] by simp
  from replace_first_occurrence[of "''cypress/e2e/a.js''"] n1
  have r1: "replaceStr ''integration'' ''e2e'' ''cypress/e2e/a.js'' = ''cypress/e2e/a.js''" by blast
  from replace_first_occurrence[of "''cypress/my-integration/integration/a.js''"] e2 n2
  have "replaceStr ''integration'' ''e2e'' ''cypress/my-integration/integration/a.js''
      = ''cypress/my-'' @ ''e2e'' @ ''/integration/a.js''" by blast
  then have r2: "replaceStr ''integration'' ''e2e'' ''cypress/my-integration/integration/a.js''
      = ''cypress/my-e2e/integration/a.js''" by simp
  from n1 r1 e2 n2 r2 show ?thesis by blast
qed

text \<open>
  The claim as stated fails: in the path below \<open>integration\<close> is no segment of its own, the
  rule as the claim words it leaves the path unchanged, and the program replaces the text
  inside the segment \<open>my-integration-tests\<close>.
\<close>

theorem first_rewrite_counterexample:
  "replaceSegment_spec ''cypress/my-integration-tests/a.js'' = ''cypress/my-integration-tests/a.js'' \<and>
   replaceStr ''integration'' ''e2e'' ''cypress/my-integration-tests/a.js'' = ''cypress/my-e2e-tests/a.js'' \<and>
   renameSpecPath ''cypress/my-integration-tests/a.js'' = ''cypress/my-e2e-tests/a.cy.js''"
  by code_simp

section \<open>Annotating: the parts reproduce the path\<close>



text \<open>
  The legacy pattern can match a path on which \<open>formatMigrationFile\<close> returns no parts: on
  the path below, with marker \<open>_spec[\<close>, it raises a \<open>SyntaxError\<close>.
\<close>

lemma formatMigrationFile_legacy_raises_example:
  "exec (legacyRe ''component'') ''cypress/component/a_spec[ts''
     = Some ([], ''cypress/component/a_spec['', ''ts'', [Some ''component'', Some ''_spec['']) \<and>
   formatMigrationFile ''cypress/component/a_spec[ts'' (legacyRe ''component'') = Inl SyntaxError"
  by code_simp

section \<open>Reducing: the rules\<close>

text \<open>
  C4.  \<open>reduceConfig\<close> treats the entries of the configuration in order, each by these
  rules: the keys \<open>pluginsFile\<close>, \<open>$schema\<close> and \<open>componentFolder\<close> change nothing; the value
  of \<open>e2e\<close> or \<open>component\<close> is merged into the bucket of that name; the value of \<open>testFiles\<close>
  is set as \<open>specPattern\<close> in both the \<open>e2e\<close> and the \<open>component\<close> bucket; the value of
  \<open>baseUrl\<close> is set as \<open>baseUrl\<close> in the \<open>e2e\<close> bucket; every other key is set with its value
  in the \<open>global\<close> bucket.  Merging the properties of an object gives them precedence over
  those present, and setting a property leaves the others as they are.  For the
  configuration \<open>{ baseUrl: "http://x", testFiles: "**/*.ts", component: { supportFile:
  false } }\<close> the result has an empty \<open>global\<close>, \<open>e2e = { baseUrl: "http://x",
  specPattern: "**/*.ts" }\<close> and \<open>component = { specPattern: "**/*.ts", supportFile:
  false }\<close>.
\<close>

theorem reduceConfig_rules:
  "reduceConfig [] = \<lparr>global = [], e2e = [], component = []\<rparr> \<and>
   (key \<in> {''pluginsFile'', ''$schema'', ''componentFolder''} \<longrightarrow>
      reduceConfig (cfg @ [(key, val)]) = reduceConfig cfg) \<and>
   reduceConfig (cfg @ [(''e2e'', val)]) =
     (reduceConfig cfg)\<lparr>e2e := objMerge (e2e (reduceConfig cfg)) (spread val)\<rparr> \<and>
   reduceConfig (cfg @ [(''component'', val)]) =
     (reduceConfig cfg)\<lparr>component := objMerge (component (reduceConfig cfg)) (spread val)\<rparr> \<and>
   reduceConfig (cfg @ [(''testFiles'', val)]) =
     (reduceConfig cfg)\<lparr>e2e := objSet (e2e (reduceConfig cfg)) ''specPattern'' val,
                        component := objSet (component (reduceConfig cfg)) ''specPattern'' val\<rparr> \<and>
   reduceConfig (cfg @ [(''baseUrl'', val)]) =
     (reduceConfig cfg)\<lparr>e2e := objSet (e2e (reduceConfig cfg)) ''baseUrl'' val\<rparr> \<and>
   (key \<notin> {''pluginsFile'', ''$schema'', ''componentFolder'', ''e2e'', ''component'',
             ''testFiles'', ''baseUrl''} \<longrightarrow>
      reduceConfig (cfg @ [(key, val)]) =
        (reduceConfig cfg)\<lparr>global := objSet (global (reduceConfig cfg)) key val\<rparr>) \<and>
   spread (VObj ps) = ps \<and>
   (distinct (map fst ps) \<longrightarrow> map_of (objMerge ob ps) = map_of ob ++ map_of ps) \<and>
   map_of (objSet ob key val) = (map_of ob)(key \<mapsto> val) \<and>
   reduceConfig [(''baseUrl'', VStr ''http://x''), (''testFiles'', VStr ''**/*.ts''),
                 (''component'', VObj [(''supportFile'', VBool False)])] =
     \<lparr>global = [],
      e2e = [(''baseUrl'', VStr ''http://x''), (''specPattern'', VStr ''**/*.ts'')],
      component = [(''specPattern'', VStr ''**/*.ts''), (''supportFile'', VBool False)]\<rparr>"
proof -
  have m: "distinct (map fst ps) \<longrightarrow> map_of (objMerge ob ps) = map_of ob ++ map_of ps"
    by (auto simp: fun_eq_iff map_of_objMerge map_add_def)
  have s: "map_of (objSet ob key val) = (map_of ob)(key \<mapsto> val)"
    by (auto simp: fun_eq_iff map_of_objSet)
  have ex: "reduceConfig [(''baseUrl'', VStr ''http://x''), (''testFiles'', VStr ''**/*.ts''),
                 (''component'', VObj [(''supportFile'', VBool False)])] =
     \<lparr>global = [],
      e2e = [(''baseUrl'', VStr ''http://x''), (''specPattern'', VStr ''**/*.ts'')],
      component = [(''specPattern'', VStr ''**/*.ts''), (''supportFile'', VBool False)]\<rparr>"
    by code_simp
  show ?thesis
    unfolding reduceConfig_snoc
    by (intro conjI impI m[rule_format] s ex)
       (simp_all add: reduceConfig_Nil reduceStep_def excludedFields_def)
qed

theorem reduceConfig_rules_witness:
  "(''$schema'' \<in> {''pluginsFile'', ''$schema'', ''componentFolder''} \<and>
    reduceConfig ([(''video'', VBool True)] @ [(''$schema'', VStr ''s.json'')])
      = reduceConfig [(''video'', VBool True)]) \<and>
   (''video'' \<notin> {''pluginsFile'', ''$schema'', ''componentFolder'', ''e2e'', ''component'',
             ''testFiles'', ''baseUrl''} \<and>
    reduceConfig ([(''baseUrl'', VStr ''http://x'')] @ [(''video'', VBool True)])
      = \<lparr>global = [(''video'', VBool True)], e2e = [(''baseUrl'', VStr ''http://x'')],
         component = []\<rparr>) \<and>
   (distinct (map fst [(''a'', VNum 1), (''b'', VNum 2)]) \<and>
    map_of (objMerge [(''a'', VNum 0)] [(''a'', VNum 1), (''b'', VNum 2)]) ''a'' = Some (VNum 1))"
proof -
  have k1: "''$schema'' \<in> {''pluginsFile'', ''$schema'', ''componentFolder''}" by simp
  have k2: "''video'' \<notin> {''pluginsFile'', ''$schema'', ''componentFolder'', ''e2e'', ''component'',
             ''testFiles'', ''baseUrl''}" by simp
  have d: "distinct (map fst [(''a'', VNum 1), (''b'', VNum 2)])" by simp
  note r1 = reduceConfig_rules[of "''$schema''" "[(''video'', VBool True)]" "VStr ''s.json''"
      "[(''a'', VNum 1), (''b'', VNum 2)]" "[(''a'', VNum 0)]"]
  note r2 = reduceConfig_rules[of "''video''" "[(''baseUrl'', VStr ''http://x'')]" "VBool True"
      "[]" "[]"]
  from r1 k1 have a: "reduceConfig ([(''video'', VBool True)] @ [(''$schema'', VStr ''s.json'')])
      = reduceConfig [(''video'', VBool True)]" by blast
  from r2 k2 have "reduceConfig ([(''baseUrl'', VStr ''http://x'')] @ [(''video'', VBool True)])
      = (reduceConfig [(''baseUrl'', VStr ''http://x'')])\<lparr>global :=
          objSet (global (reduceConfig [(''baseUrl'', VStr ''http://x'')])) ''video'' (VBool True)\<rparr>"
    by blast
  also have "\<dots> = \<lparr>global = [(''video'', VBool True)], e2e = [(''baseUrl'', VStr ''http://x'')],
         component = []\<rparr>" by code_simp
  finally have b: "reduceConfig ([(''baseUrl'', VStr ''http://x'')] @ [(''video'', VBool True)])
      = \<lparr>global = [(''video'', VBool True)], e2e = [(''baseUrl'', VStr ''http://x'')],
         component = []\<rparr>" .
  from r1 d have "map_of (objMerge [(''a'', VNum 0)] [(''a'', VNum 1), (''b'', VNum 2)])
      = map_of [(''a'', VNum 0)] ++ map_of [(''a'', VNum 1), (''b'', VNum 2)]" by blast
  then have c: "map_of (objMerge [(''a'', VNum 0)] [(''a'', VNum 1), (''b'', VNum 2)]) ''a'' = Some (VNum 1)"
    by simp
  from a b c k1 k2 d show ?thesis by blast
qed

section \<open>Reducing: the option names of the buckets\<close>

text \<open>
  C5, as amended.  For every configuration that has no key \<open>testFiles\<close> and in which the
  option names of the \<open>e2e\<close> object, those of the \<open>component\<close> object and the other top-level
  keys are pairwise different, no option name is in more than one of the buckets \<open>global\<close>,
  \<open>e2e\<close> and \<open>component\<close>.
\<close>

theorem buckets_disjoint:
  assumes "''testFiles'' \<notin> fst ` set cfg"
    and "set (nestedNames ''e2e'' cfg) \<inter> set (nestedNames ''component'' cfg) = {}"
    and "set (nestedNames ''e2e'' cfg) \<inter> (fst ` set cfg - {''e2e'', ''component''}) = {}"
    and "set (nestedNames ''component'' cfg) \<inter> (fst ` set cfg - {''e2e'', ''component''}) = {}"
  shows "fst ` set (global (reduceConfig cfg)) \<inter> fst ` set (e2e (reduceConfig cfg)) = {} \<and>
         fst ` set (global (reduceConfig cfg)) \<inter> fst ` set (component (reduceConfig cfg)) = {} \<and>
         fst ` set (e2e (reduceConfig cfg)) \<inter> fst ` set (component (reduceConfig cfg)) = {}"
proof -
  have sp: "''e2e'' \<in> set specialNames" "''component'' \<in> set specialNames"
    "''baseUrl'' \<in> set specialNames"
    by (simp_all add: specialNames_def)
  show ?thesis
    unfolding global_keys e2e_keys component_keys
    using assms sp by (auto split: if_splits)
qed

theorem buckets_disjoint_witness:
  "''testFiles'' \<notin> fst ` set [(''baseUrl'', VStr ''http://x''), (''video'', VBool True),
       (''e2e'', VObj [(''supportFile'', VBool False)]), (''component'', VObj [(''slowTestThreshold'', VNum 250)])] \<and>
   fst ` set (global (reduceConfig [(''baseUrl'', VStr ''http://x''), (''video'', VBool True),
       (''e2e'', VObj [(''supportFile'', VBool False)]), (''component'', VObj [(''slowTestThreshold'', VNum 250)])]))
     \<inter> fst ` set (e2e (reduceConfig [(''baseUrl'', VStr ''http://x''), (''video'', VBool True),
       (''e2e'', VObj [(''supportFile'', VBool False)]), (''component'', VObj [(''slowTestThreshold'', VNum 250)])])) = {} \<and>
   fst ` set (e2e (reduceConfig [(''baseUrl'', VStr ''http://x''), (''video'', VBool True),
       (''e2e'', VObj [(''supportFile'', VBool False)]), (''component'', VObj [(''slowTestThreshold'', VNum 250)])]))
     = {''baseUrl'', ''supportFile''}"
proof -
  let ?cfg = "[(''baseUrl'', VStr ''http://x''), (''video'', VBool True),
       (''e2e'', VObj [(''supportFile'', VBool False)]), (''component'', VObj [(''slowTestThreshold'', VNum 250)])]"
  have 1: "''testFiles'' \<notin> fst ` set ?cfg" by simp
  have 2: "set (nestedNames ''e2e'' ?cfg) \<inter> set (nestedNames ''component'' ?cfg) = {}"
    by (simp add: nestedNames_def)
  have 3: "set (nestedNames ''e2e'' ?cfg) \<inter> (fst ` set ?cfg - {''e2e'', ''component''}) = {}"
    by (simp add: nestedNames_def)
  have 4: "set (nestedNames ''component'' ?cfg) \<inter> (fst ` set ?cfg - {''e2e'', ''component''}) = {}"
    by (simp add: nestedNames_def)
  have 5: "e2e (reduceConfig ?cfg) = [(''baseUrl'', VStr ''http://x''), (''supportFile'', VBool False)]"
    by code_simp
  from buckets_disjoint[OF 1 2 3 4] 1 5 show ?thesis by simp
qed

text \<open>
  The claim as stated fails: the key \<open>testFiles\<close> puts \<open>specPattern\<close> into both the \<open>e2e\<close> and
  the \<open>component\<close> bucket.
\<close>

theorem buckets_overlap_counterexample:
  "e2e (reduceConfig [(''testFiles'', VStr ''**/*.ts'')]) = [(''specPattern'', VStr ''**/*.ts'')] \<and>
   component (reduceConfig [(''testFiles'', VStr ''**/*.ts'')]) = [(''specPattern'', VStr ''**/*.ts'')] \<and>
   fst ` set (e2e (reduceConfig [(''testFiles'', VStr ''**/*.ts'')])) \<inter>
     fst ` set (component (reduceConfig [(''testFiles'', VStr ''**/*.ts'')])) \<noteq> {}"
proof -
  have a: "e2e (reduceConfig [(''testFiles'', VStr ''**/*.ts'')]) = [(''specPattern'', VStr ''**/*.ts'')]"
    by code_simp
  have b: "component (reduceConfig [(''testFiles'', VStr ''**/*.ts'')]) = [(''specPattern'', VStr ''**/*.ts'')]"
    by code_simp
  show ?thesis unfolding a b by simp
qed

section \<open>Rendering: the blocks\<close>

text \<open>
  C6.  The text that \<open>createConfigString\<close> produces is the opening of the module, the
  global options if there are any, the \<open>e2e\<close> block, the \<open>component\<close> block and the closing.
  The block of a bucket without keys is empty; the block of any other bucket starts with
  the name of the bucket and the \<open>setupNodeEvents\<close> hook that requires the plugin path.
  The plugin path is the value of \<open>pluginsFile\<close> when the configuration gives one (a truthy
  one, as the conditional of the program tests it), and \<open>/cypress/plugins/index.js\<close>
  otherwise.
\<close>

theorem createConfigString_blocks:
  "createConfigString stringify cfg =
     (let c = reduceConfig cfg;
          p = toStr (getPluginRelativePath cfg);
          hook = nl @ ''    setupNodeEvents(on, config) {'' @
                 nl @ ''      return require('' @ quote @ p @ quote @ '')'' @
                 nl @ ''    },''
      in ''const { defineConfig } = require('' @ quote @ ''cypress'' @ quote @ '')'' @ nl @ nl @
         ''module.exports = defineConfig({'' @
         (if global c = [] then [] else nl @ formatObjectForConfig stringify (global c) 2 @ '','') @
         (if e2e c = [] then []
          else nl @ ''  e2e: {'' @ hook @
               nl @ ''    '' @ formatObjectForConfig stringify (e2e c) 4 @ nl @ ''  },'') @
         (if component c = [] then []
          else nl @ ''  component: {'' @ hook @
               nl @ ''    '' @ formatObjectForConfig stringify (component c) 4 @ nl @ ''  },'') @
         nl @ ''})'') \<and>
   getPluginRelativePath cfg =
     (case map_of cfg ''pluginsFile'' of
        None \<Rightarrow> VStr ''/cypress/plugins/index.js''
      | Some v \<Rightarrow> if truthy v then v else VStr ''/cypress/plugins/index.js'')"
  by (simp add: createConfigString_def createCypressConfigJs_def createTestingTypeTemplate_def
        getPluginRelativePath_def objGet_def DEFAULT_PLUGIN_PATH_def Let_def split: option.splits)


theorem createConfigString_blocks_witness:
  "createConfigString (\<lambda>ob ind. ''{'' @ nl @ ind @ ''a: 1'' @ nl @ ''}'')
     [(''pluginsFile'', VStr ''cypress/plugins/main.js''), (''baseUrl'', VStr ''http://x'')] =
   ''const { defineConfig } = require('' @ quote @ ''cypress'' @ quote @ '')'' @ nl @ nl @
   ''module.exports = defineConfig({'' @
   nl @ ''  e2e: {'' @
   nl @ ''    setupNodeEvents(on, config) {'' @
   nl @ ''      return require('' @ quote @ ''cypress/plugins/main.js'' @ quote @ '')'' @
   nl @ ''    },'' @
   nl @ ''    a: 1'' @
   nl @ ''  },'' @
   nl @ ''})''"
  by (subst createConfigString_blocks[THEN conjunct1]) code_simp

section \<open>Listing: before and after\<close>

text \<open>
  C7.  Whenever both listings succeed, \<open>getSpecs\<close> returns; \<open>before\<close> is the entries of the
  component listing, all tagged \<open>component\<close>, followed by those of the e2e listing, all tagged
  \<open>e2e\<close>; a directory path that is null gives no entries for its testing type; and
  \<open>after\<close> is as long as \<open>before\<close>, with at every index the testing type of \<open>before\<close> at
  that index and the relative path that \<open>renameSpecPath\<close> makes of the one in \<open>before\<close>.
\<close>

theorem getSpecs_lists:
  assumes "findByTestingType globby projectRoot componentDirPath componentType = Inr cs"
    and "findByTestingType globby projectRoot e2eDirPath e2eType = Inr es"
  shows "\<exists>r. getSpecs globby componentFirst projectRoot componentDirPath e2eDirPath = Inr r \<and>
     before r = cs @ es \<and>
     (\<forall>x\<in>set cs. testingType x = componentType) \<and>
     (\<forall>x\<in>set es. testingType x = e2eType) \<and>
     (componentDirPath = None \<longrightarrow> cs = []) \<and>
     (e2eDirPath = None \<longrightarrow> es = []) \<and>
     length (after r) = length (before r) \<and>
     (\<forall>i<length (before r).
        testingType (after r ! i) = testingType (before r ! i) \<and>
        relative (after r ! i) = renameSpecPath (relative (before r ! i)))"
proof -
  let ?r = "\<lparr>before = cs @ es,
             after = map (\<lambda>x. \<lparr>testingType = testingType x,
                                relative = renameSpecPath (relative x)\<rparr>) (cs @ es)\<rparr>"
  have "getSpecs globby componentFirst projectRoot componentDirPath e2eDirPath = Inr ?r"
    using assms by (simp add: getSpecs_def)
  moreover have "\<forall>x\<in>set cs. testingType x = componentType"
    using assms(1) by (auto simp: findByTestingType_def split: option.splits if_splits sum.splits)
  moreover have "\<forall>x\<in>set es. testingType x = e2eType"
    using assms(2) by (auto simp: findByTestingType_def split: option.splits if_splits sum.splits)
  moreover have "componentDirPath = None \<longrightarrow> cs = []"
    using assms(1) by (auto simp: findByTestingType_def)
  moreover have "e2eDirPath = None \<longrightarrow> es = []"
    using assms(2) by (auto simp: findByTestingType_def)
  moreover have "\<forall>i<length (before ?r).
        testingType (after ?r ! i) = testingType (before ?r ! i) \<and>
        relative (after ?r ! i) = renameSpecPath (relative (before ?r ! i))"
    by (simp del: map_append)
  ultimately show ?thesis by (intro exI[of _ ?r]) simp
qed

theorem getSpecs_lists_witness:
  "findByTestingType (\<lambda>pat cwd. if pat = ''cypress/e2e/**/*'' then Inr [''cypress/e2e/a.spec.js'', ''cypress/e2e/sub/b.ts''] else Inl ''ENOENT'')
      ''/project'' None componentType = Inr [] \<and>
   findByTestingType (\<lambda>pat cwd. if pat = ''cypress/e2e/**/*'' then Inr [''cypress/e2e/a.spec.js'', ''cypress/e2e/sub/b.ts''] else Inl ''ENOENT'')
      ''/project'' (Some ''cypress/e2e'') e2eType
     = Inr [\<lparr>testingType = e2eType, relative = ''cypress/e2e/a.spec.js''\<rparr>,
            \<lparr>testingType = e2eType, relative = ''cypress/e2e/sub/b.ts''\<rparr>] \<and>
   (\<exists>r. getSpecs (\<lambda>pat cwd. if pat = ''cypress/e2e/**/*'' then Inr [''cypress/e2e/a.spec.js'', ''cypress/e2e/sub/b.ts''] else Inl ''ENOENT'')
          True ''/project'' None (Some ''cypress/e2e'') = Inr r \<and>
        before r = [\<lparr>testingType = e2eType, relative = ''cypress/e2e/a.spec.js''\<rparr>,
                    \<lparr>testingType = e2eType, relative = ''cypress/e2e/sub/b.ts''\<rparr>] \<and>
        length (after r) = 2)"
proof -
  let ?g = "\<lambda>pat cwd :: string. if pat = ''cypress/e2e/**/*'' then Inr [''cypress/e2e/a.spec.js'', ''cypress/e2e/sub/b.ts''] else (Inl ''ENOENT'' :: string + string list)"
  have c: "findByTestingType ?g ''/project'' None componentType = Inr []"
    by (simp add: findByTestingType_def)
  have e: "findByTestingType ?g ''/project'' (Some ''cypress/e2e'') e2eType
     = Inr [\<lparr>testingType = e2eType, relative = ''cypress/e2e/a.spec.js''\<rparr>,
            \<lparr>testingType = e2eType, relative = ''cypress/e2e/sub/b.ts''\<rparr>]"
    by (simp add: findByTestingType_def)
  from getSpecs_lists[OF c e, of True] obtain r where
    "getSpecs ?g True ''/project'' None (Some ''cypress/e2e'') = Inr r"
    "before r = [] @ [\<lparr>testingType = e2eType, relative = ''cypress/e2e/a.spec.js''\<rparr>,
            \<lparr>testingType = e2eType, relative = ''cypress/e2e/sub/b.ts''\<rparr>]"
    "length (after r) = length (before r)" by blast
  then have "getSpecs ?g True ''/project'' None (Some ''cypress/e2e'') = Inr r \<and>
        before r = [\<lparr>testingType = e2eType, relative = ''cypress/e2e/a.spec.js''\<rparr>,
                    \<lparr>testingType = e2eType, relative = ''cypress/e2e/sub/b.ts''\<rparr>] \<and>
        length (after r) = 2" by simp
  with c e show ?thesis by blast
qed

section \<open>Annotating: the errors raised\<close>

text \<open>
  C8.  The pattern \<open>regexps.e2e.beforeRegexp\<close> matches the path
  \<open>cypress/integration/a.spec(js\<close> with both named groups, and \<open>formatMigrationFile\<close>
  neither returns parts nor raises a \<open>NonSpecFileError\<close>: the captured marker \<open>.spec(\<close>
  goes unescaped into the pattern \<open>(integration|.spec()\<close>, which does not compile.
\<close>

theorem formatMigrationFile_raises_SyntaxError:
  "exec (legacyRe ''integration'') ''cypress/integration/a.spec(js''
     = Some ([], ''cypress/integration/a.spec('', ''js'', [Some ''integration'', Some ''.spec(''])  \<and>
   matchGroups (legacyRe ''integration'') [Some ''integration'', Some ''.spec('']
     = Some [(''dir'', Some ''integration''), (''ext'', Some ''.spec('')] \<and>
   RegExp_new ''(integration|.spec()'' = Inl SyntaxError \<and>
   formatMigrationFile ''cypress/integration/a.spec(js'' (legacyRe ''integration'') = Inl SyntaxError"
  by code_simp

section \<open>Moving: a failure part of the way\<close>



section \<open>Renaming: applying it twice\<close>

text \<open>
  C10. \<open>renameSpecPath\<close> is not idempotent: on the migrated path \<open>cypress/e2e/foo.cy.js\<close>
  the dot before the script extension matches the marker pattern again, and the result is
  \<open>cypress/e2e/foo.cy.cy.js\<close>; so renaming the result of a renaming can differ from
  renaming once.
\<close>

theorem renameSpecPath_not_idempotent:
  "renameSpecPath ''cypress/e2e/foo.cy.js'' = ''cypress/e2e/foo.cy.cy.js'' \<and>
   renameSpecPath (renameSpecPath ''cypress/integration/foo.spec.js'')
     \<noteq> renameSpecPath ''cypress/integration/foo.spec.js''"
  by code_simp


end
